theory Spec2Isabelle
  imports Main
begin

section \<open>The field state container (hook \<open>useFormState\<close>)\<close>

text \<open>
  The hook keeps one object of named text fields in a React state cell and remembers the
  object it was initialised with.  JavaScript objects are references, and \<open>resetFields\<close>
  stores the very object \<open>initialValues\<close> into the state cell, so the model keeps an
  explicit store of objects: a reference is an index into the list of objects allocated
  so far.  A field object is a map from field names to text values; a field that is not
  an own property reads as \<open>undefined\<close>, which is \<open>None\<close> here.
\<close>

type_synonym field_values = "string \<rightharpoonup> string"

type_synonym ref = nat

record form_state =
  store :: "field_values list"
  initialValues :: ref
  fieldsRef :: ref

text \<open>\<open>useState<T>(initialValues)\<close>: the state cell starts out holding the initial object.\<close>

definition useFormState :: "field_values \<Rightarrow> form_state" where
  "useFormState d = \<lparr>store = [d], initialValues = 0, fieldsRef = 0\<rparr>"

text \<open>
  \<open>setFields((prev) => ({...prev, [name]: value}))\<close>: a fresh object is allocated that
  copies every own property of the previous object and then sets \<open>name\<close>; the state cell
  is pointed at the fresh object.  No existing object is written to.
\<close>

definition onChange :: "string \<Rightarrow> string \<Rightarrow> form_state \<Rightarrow> form_state" where
  "onChange name v c =
     c\<lparr>store := store c @ [(store c ! fieldsRef c)(name \<mapsto> v)], fieldsRef := length (store c)\<rparr>"

text \<open>\<open>setFields(initialValues)\<close>: the state cell is pointed at the initial object itself.\<close>

definition resetFields :: "form_state \<Rightarrow> form_state" where
  "resetFields c = c\<lparr>fieldsRef := initialValues c\<rparr>"

text \<open>The object the state cell holds, and the object kept as the reset target.\<close>

definition current :: "form_state \<Rightarrow> field_values" where
  "current c = store c ! fieldsRef c"

definition defaults :: "form_state \<Rightarrow> field_values" where
  "defaults c = store c ! initialValues c"

text \<open>What the user interface can do to the container, and a run of such events.\<close>

datatype event = Change string string | Reset

fun dispatch :: "form_state \<Rightarrow> event \<Rightarrow> form_state" where
  "dispatch c (Change name v) = onChange name v c"
| "dispatch c Reset = resetFields c"

definition run :: "event list \<Rightarrow> form_state \<Rightarrow> form_state" where
  "run evs c = foldl dispatch c evs"

text \<open>Both references of a container point into its store.\<close>

definition wf_form :: "form_state \<Rightarrow> bool" where
  "wf_form c \<longleftrightarrow> fieldsRef c < length (store c) \<and> initialValues c < length (store c)"

section \<open>Built-ins of the platform used by the lookup step\<close>

text \<open>
  Text is modelled as a list of bytes: a JavaScript string that is well-formed Unicode,
  in its UTF-8 encoding.  Both encoders below work on the UTF-8 bytes of their argument,
  so on such text they agree with the platform functions they stand for.
\<close>

definition hex_digit :: "nat \<Rightarrow> char" where
  "hex_digit n = ''0123456789ABCDEF'' ! (n mod 16)"

definition percent_byte :: "char \<Rightarrow> string" where
  "percent_byte c =
     [CHR ''%'', hex_digit ((of_char c :: nat) div 16), hex_digit ((of_char c :: nat) mod 16)]"

definition alphanumeric :: "char \<Rightarrow> bool" where
  "alphanumeric c \<longleftrightarrow>
     c \<in> set ''ABCDEFGHIJKLMNOPQRSTUVWXYZabcdefghijklmnopqrstuvwxyz0123456789''"

text \<open>
  \<open>encodeURIComponent\<close> (ECMAScript): every byte is escaped as \<open>%XX\<close> except the ASCII
  letters and digits and the marks \<open>- _ . ! ~ * ' ( )\<close>.
\<close>

definition uriUnescaped :: "char \<Rightarrow> bool" where
  "uriUnescaped c \<longleftrightarrow> alphanumeric c \<or> c \<in> set ''-_.!~*()'' \<or> c = CHR 0x27"

definition encodeURIComponent :: "string \<Rightarrow> string" where
  "encodeURIComponent s = concat (map (\<lambda>c. if uriUnescaped c then [c] else percent_byte c) s)"

text \<open>
  \<open>URLSearchParams\<close> (URL Standard): the object is a list of name-value pairs, \<open>append\<close> adds
  a pair at the end, and \<open>toString\<close> is the \<open>application/x-www-form-urlencoded\<close>
  serializer: in names and values a space becomes \<open>+\<close>, the ASCII letters and digits and
  \<open>* - . _\<close> stay, every other byte (the percent sign included) is escaped as \<open>%XX\<close>;
  the pairs are written \<open>name=value\<close> and joined with \<open>&\<close>.
\<close>

type_synonym url_search_params = "(string \<times> string) list"

definition params_append :: "url_search_params \<Rightarrow> string \<Rightarrow> string \<Rightarrow> url_search_params" where
  "params_append ps name v = ps @ [(name, v)]"

definition form_byte :: "char \<Rightarrow> string" where
  "form_byte c =
     (if c = CHR '' '' then ''+''
      else if alphanumeric c \<or> c \<in> set ''*-._'' then [c]
      else percent_byte c)"

definition form_urlencode :: "string \<Rightarrow> string" where
  "form_urlencode s = concat (map form_byte s)"

fun params_toString :: "url_search_params \<Rightarrow> string" where
  "params_toString [] = []"
| "params_toString [(name, v)] = form_urlencode name @ ''='' @ form_urlencode v"
| "params_toString ((name, v) # ps) =
     form_urlencode name @ ''='' @ form_urlencode v @ ''&'' @ params_toString ps"

section \<open>The address resolution workflow (component \<open>App\<close>)\<close>

text \<open>
  Modelled from the spec: the type \<open>Address\<close> of \<open>./types\<close> is not among the source files.
  The spec's ResolvedAddress is an AddressCandidate (postcode, street, city, identifier)
  together with a house number.  The identifier is the field \<open>id\<close> of the source.
\<close>

record address =
  id_addr :: string
  postcode :: string
  street :: string
  city :: string
  houseNumber :: string

text \<open>The record handed to \<open>addAddress\<close>: \<open>{...foundAddress, firstName, lastName}\<close>.\<close>

record finished = address +
  firstName :: string
  lastName :: string

text \<open>
  The state of the component: the three React state cells \<open>loading\<close>, \<open>error\<close> (a string or
  \<open>undefined\<close>) and \<open>addresses\<close>, and, to make its effects on the outside observable, the
  URLs it has passed to \<open>fetch\<close> and the records it has passed to \<open>addAddress\<close>, in order.
\<close>

record app_state =
  loading :: bool
  error :: "string option"
  addresses :: "address list"
  requests :: "string list"
  added :: "finished list"

text \<open>\<open>!v\<close> for a field value: \<open>undefined\<close> and the empty string are falsy.\<close>

definition falsy :: "string option \<Rightarrow> bool" where
  "falsy v = (case v of None \<Rightarrow> True | Some s \<Rightarrow> s = [])"

text \<open>The text of a field value that has been checked to be truthy.\<close>

definition text_of :: "string option \<Rightarrow> string" where
  "text_of v = (case v of None \<Rightarrow> [] | Some s \<Rightarrow> s)"

text \<open>
  What the \<open>catch\<close> clause can receive: an instance of \<open>Error\<close> with its message, or any
  other value.
\<close>

datatype thrown = ErrorObject string | OtherValue

text \<open>
  What the network gives back for a request.  Either \<open>fetch\<close> rejects (transport failure),
  or a response arrives, with its \<open>ok\<close> flag, and \<open>response.json()\<close> rejects or yields the
  parsed body.  The body is taken to be a JSON object, as both documented body shapes
  are.  Its property \<open>details\<close> is an array of raw entries, or some value without a \<open>map\<close>
  method (\<open>undefined\<close> when absent), on which the call \<open>data.details.map(...)\<close> raises a
  \<open>TypeError\<close> with an engine-specific message, carried here.  Its property \<open>errormessage\<close>
  is a text or absent.
\<close>

datatype 'raw details_value = DetailsArray "'raw list" | DetailsNoMap string

record 'raw body =
  details :: "'raw details_value"
  errormessage :: "string option"

datatype 'raw lookup =
    FetchRejected thrown
  | JsonRejected bool thrown
  | Responded bool "'raw body"

text \<open>
  \<open>Array.prototype.map\<close>: the callback receives the element, its index and the array.
\<close>

definition array_map :: "('a \<Rightarrow> nat \<Rightarrow> 'a list \<Rightarrow> 'b) \<Rightarrow> 'a list \<Rightarrow> 'b list" where
  "array_map f xs = map (\<lambda>(i, x). f x i xs) (enumerate 0 xs)"

text \<open>\<open>new Error(m).message\<close>: the empty text when \<open>m\<close> is \<open>undefined\<close>.\<close>

definition new_Error :: "string option \<Rightarrow> thrown" where
  "new_Error m = ErrorObject (case m of None \<Rightarrow> [] | Some s \<Rightarrow> s)"

text \<open>
  The request URL built in the \<open>try\<close> block of \<open>handleAddressSubmit\<close>.  \<open>BASE_URL\<close> comes
  from \<open>./utils/constants\<close>, which is not among the source files, and is a parameter.
\<close>

definition request_url :: "string \<Rightarrow> string \<Rightarrow> string \<Rightarrow> string" where
  "request_url BASE_URL postCode_v houseNumber_v =
     (let encodedPostCode = encodeURIComponent postCode_v;
          encodedHouseNumber = encodeURIComponent houseNumber_v;
          params = params_append (params_append [] ''postcode'' encodedPostCode)
                     ''streetnumber'' encodedHouseNumber
      in BASE_URL @ ''/api/getAddresses?'' @ params_toString params)"

text \<open>
  The rest of the \<open>try\<close> block, after the request has been issued: either a value is
  thrown (\<open>Inl\<close>) or the transformed addresses are produced (\<open>Inr\<close>).  \<open>transformAddress\<close>
  comes from \<open>./core/models/address\<close>, which is not among the source files, and is a
  parameter; it is called as the callback of \<open>map\<close> and is taken to return normally, as
  the pure function the spec describes.
\<close>

definition try_block ::
  "('raw \<Rightarrow> nat \<Rightarrow> 'raw list \<Rightarrow> address) \<Rightarrow> 'raw lookup \<Rightarrow> thrown + address list" where
  "try_block transformAddress r =
     (case r of
        FetchRejected x \<Rightarrow> Inl x
      | JsonRejected ok x \<Rightarrow> Inl x
      | Responded ok data \<Rightarrow>
          if ok then
            (case details data of
               DetailsArray ds \<Rightarrow> Inr (array_map transformAddress ds)
             | DetailsNoMap m \<Rightarrow> Inl (ErrorObject m))
          else Inl (new_Error (errormessage data)))"

text \<open>
  \<open>handleAddressSubmit\<close>.  \<open>fields\<close> is the field object of the render in which the form
  was submitted; \<open>fetch\<close> is the network, giving the outcome of a request from its URL.
  The result is the state once the handler has run to its end.  The early \<open>return\<close> of the
  mandatory-field check is outside the \<open>try\<close> statement, so its \<open>finally\<close> clause does not
  run for it.
\<close>

definition handleAddressSubmit ::
  "('raw \<Rightarrow> nat \<Rightarrow> 'raw list \<Rightarrow> address) \<Rightarrow> string \<Rightarrow> (string \<Rightarrow> 'raw lookup) \<Rightarrow>
   field_values \<Rightarrow> app_state \<Rightarrow> app_state" where
  "handleAddressSubmit transformAddress BASE_URL fetch flds st =
     (let postCode = flds ''postCode'';
          houseNumber = flds ''houseNumber'';
          s1 = st\<lparr>error := None\<rparr>;
          s2 = s1\<lparr>addresses := []\<rparr>;
          s3 = s2\<lparr>loading := True\<rparr>
      in if falsy postCode \<or> falsy houseNumber
         then s3\<lparr>error := Some ''Post code and house number are mandatory!''\<rparr>
         else
           let url = request_url BASE_URL (text_of postCode) (text_of houseNumber);
               s4 = s3\<lparr>requests := requests s3 @ [url]\<rparr>;
               s5 = (case try_block transformAddress (fetch url) of
                       Inr transformedAddresses \<Rightarrow> s4\<lparr>addresses := transformedAddresses\<rparr>
                     | Inl e \<Rightarrow>
                         s4\<lparr>error := Some (case e of ErrorObject message \<Rightarrow> message
                                             | OtherValue \<Rightarrow> ''Failed to fetch addresses'')\<rparr>)
           in s5\<lparr>loading := False\<rparr>)"

text \<open>\<open>Array.prototype.find\<close>: the first element that satisfies the predicate, if any.\<close>

definition array_find :: "('a \<Rightarrow> bool) \<Rightarrow> 'a list \<Rightarrow> 'a option" where
  "array_find p xs = List.find p xs"

text \<open>\<open>handlePersonSubmit\<close>, with \<open>addAddress\<close> recorded in \<open>added\<close>.\<close>

definition handlePersonSubmit :: "field_values \<Rightarrow> app_state \<Rightarrow> app_state" where
  "handlePersonSubmit flds st =
     (if falsy (flds ''firstName'') \<or> falsy (flds ''lastName'')
      then st\<lparr>error := Some ''First name and last name fields mandatory!''\<rparr>
      else if falsy (flds ''selectedAddress'') \<or> length (addresses st) = 0
      then st\<lparr>error := Some
             ''No address selected, try to select an address or find one if you haven't''\<rparr>
      else
        (case array_find (\<lambda>a. Some (id_addr a) = flds ''selectedAddress'') (addresses st) of
           None \<Rightarrow> st\<lparr>error := Some ''Selected address not found''\<rparr>
         | Some foundAddress \<Rightarrow>
             st\<lparr>error := Some [],
                added := added st @
                  [address.extend foundAddress
                     (finished.fields (text_of (flds ''firstName'')) (text_of (flds ''lastName'')))]\<rparr>))"

text \<open>
  The initial values \<open>App\<close> gives to the container, the field object of a render after a
  run of user events on it, and the initial contents of the three state cells.
\<close>

definition App_initialValues :: field_values where
  "App_initialValues =
     [''postCode'' \<mapsto> [], ''houseNumber'' \<mapsto> [], ''firstName'' \<mapsto> [], ''lastName'' \<mapsto> [],
      ''selectedAddress'' \<mapsto> []]"

definition App_fields :: "event list \<Rightarrow> field_values" where
  "App_fields evs = current (run evs (useFormState App_initialValues))"

definition App_initial_state :: app_state where
  "App_initial_state = \<lparr>loading = False, error = None, addresses = [], requests = [], added = []\<rparr>"

text \<open>
  Test doubles: a lookup stubbed to give one outcome whatever the URL, and a transform
  for raw entries that already have the shape of an address and are kept as they are.
\<close>

definition stubbed :: "'raw lookup \<Rightarrow> string \<Rightarrow> 'raw lookup" where
  "stubbed r url = r"

definition keep_entry :: "address \<Rightarrow> nat \<Rightarrow> address list \<Rightarrow> address" where
  "keep_entry e i es = e"

text \<open>A candidate as in the spec's example response, with identifier \<open>a1\<close>.\<close>

definition address_a1 :: address where
  "address_a1 =
     \<lparr>id_addr = ''a1'', postcode = ''1000AA'', street = ''Main'', city = ''Amsterdam'',
      houseNumber = ''1''\<rparr>"

section \<open>Properties of the container\<close>

lemma wf_useFormState: "wf_form (useFormState d)"
  by (simp add: wf_form_def useFormState_def)

lemma wf_dispatch: "wf_form c \<Longrightarrow> wf_form (dispatch c e)"
  by (cases e) (simp_all add: wf_form_def onChange_def resetFields_def)

lemma defaults_dispatch: "wf_form c \<Longrightarrow> defaults (dispatch c e) = defaults c"
  by (cases e) (simp_all add: wf_form_def defaults_def onChange_def resetFields_def nth_append)

lemma run_snoc: "run (evs @ [e]) c = dispatch (run evs c) e"
  by (simp add: run_def)

lemma wf_run: "wf_form c \<Longrightarrow> wf_form (run evs c)"
  by (induction evs rule: rev_induct) (simp_all add: run_def wf_dispatch)

lemma defaults_run: "wf_form c \<Longrightarrow> defaults (run evs c) = defaults c"
proof (induction evs rule: rev_induct)
  case Nil
  show ?case by (simp add: run_def)
next
  case (snoc e evs)
  have "defaults (run (evs @ [e]) c) = defaults (run evs c)"
    using snoc.prems by (simp add: run_snoc defaults_dispatch wf_run)
  with snoc show ?case by simp
qed

lemma current_resetFields: "current (resetFields c) = defaults c"
  by (simp add: current_def defaults_def resetFields_def)

lemma current_onChange: "current (onChange name v c) = (current c)(name \<mapsto> v)"
  by (simp add: current_def onChange_def)

lemma dom_current_dispatch:
  "dom (defaults c) \<subseteq> dom (current c) \<Longrightarrow> dom (defaults c) \<subseteq> dom (current (dispatch c e))"
  by (cases e) (auto simp: current_onChange current_resetFields)

lemma dom_defaults_run:
  "wf_form c \<Longrightarrow> dom (defaults c) \<subseteq> dom (current c) \<Longrightarrow>
   dom (defaults c) \<subseteq> dom (current (run evs c))"
proof (induction evs rule: rev_induct)
  case Nil
  then show ?case by (simp add: run_def)
next
  case (snoc e evs)
  let ?c = "run evs c"
  have d: "defaults ?c = defaults c"
    using snoc.prems(1) by (rule defaults_run)
  have "dom (defaults ?c) \<subseteq> dom (current ?c)"
    using snoc d by simp
  then have "dom (defaults ?c) \<subseteq> dom (current (dispatch ?c e))"
    by (rule dom_current_dispatch)
  then show ?case by (simp add: run_snoc d)
qed

text \<open>
  Claim C7.  For every initial mapping \<open>d\<close> and every finite sequence of events (field
  changes, possibly with resets in between) applied to a container initialised with \<open>d\<close>,
  a subsequent reset makes the current state exactly \<open>d\<close>; and the object kept as the
  reset target still holds \<open>d\<close> after the sequence, although the state cell and the reset
  target may have been the same object on the way: changing the current state never
  writes to the stored defaults.
\<close>

theorem reset_restores_defaults:
  "current (resetFields (run evs (useFormState d))) = d \<and>
   defaults (run evs (useFormState d)) = d \<and>
   defaults (onChange name v (resetFields (run evs (useFormState d)))) = d"
proof -
  let ?c = "run evs (useFormState d)"
  have wf: "wf_form ?c"
    by (rule wf_run) (rule wf_useFormState)
  have d0: "defaults (useFormState d) = d"
    by (simp add: defaults_def useFormState_def)
  have d1: "defaults ?c = d"
    using defaults_run [OF wf_useFormState, of evs d] d0 by simp
  have d2: "current (resetFields ?c) = d"
    using d1 by (simp add: current_resetFields)
  have "run (evs @ [Reset, Change name v]) (useFormState d) = onChange name v (resetFields ?c)"
    by (simp add: run_def)
  then have d3: "defaults (onChange name v (resetFields ?c)) = d"
    using defaults_run [OF wf_useFormState, of "evs @ [Reset, Change name v]" d] d0 by simp
  from d1 d2 d3 show ?thesis by simp
qed

text \<open>
  Claim C8.  An \<open>onChange\<close> for the field \<open>name\<close> leaves every other key with exactly its
  previous value (absent keys stay absent) and removes no key; and every key of the
  initial mapping is still a key of the current state after any run of events.
\<close>

theorem onChange_frame:
  "(\<forall>k. k \<noteq> name \<longrightarrow> current (onChange name v c) k = current c k) \<and>
   dom (current c) \<subseteq> dom (current (onChange name v c)) \<and>
   dom d \<subseteq> dom (current (run evs (useFormState d)))"
proof -
  have a: "\<forall>k. k \<noteq> name \<longrightarrow> current (onChange name v c) k = current c k"
    by (simp add: current_onChange)
  have b: "dom (current c) \<subseteq> dom (current (onChange name v c))"
    by (auto simp: current_onChange)
  have d0: "defaults (useFormState d) = d" and c0: "current (useFormState d) = d"
    by (simp_all add: defaults_def current_def useFormState_def)
  have "dom (defaults (useFormState d)) \<subseteq> dom (current (run evs (useFormState d)))"
    by (rule dom_defaults_run [OF wf_useFormState]) (simp add: d0 c0)
  then have c: "dom d \<subseteq> dom (current (run evs (useFormState d)))"
    by (simp add: d0)
  from a b c show ?thesis by blast
qed

theorem onChange_frame_witness:
  "''postCode'' \<noteq> ''houseNumber'' \<and>
   current (onChange ''houseNumber'' ''1'' (useFormState [''postCode'' \<mapsto> ''1000AA'']))
     ''postCode'' = Some ''1000AA'' \<and>
   ''postCode'' \<in> dom (current (run [Change ''houseNumber'' ''1'', Reset, Change ''postCode'' []]
     (useFormState [''postCode'' \<mapsto> ''1000AA''])))"
proof -
  let ?d = "[''postCode'' \<mapsto> ''1000AA'']"
  let ?evs = "[Change ''houseNumber'' ''1'', Reset, Change ''postCode'' []]"
  have ne: "''postCode'' \<noteq> ''houseNumber''" by simp
  have c0: "current (useFormState ?d) ''postCode'' = Some ''1000AA''"
    by (simp add: current_def useFormState_def)
  note fr = onChange_frame [of "''houseNumber''" "''1''" "useFormState ?d" ?d ?evs]
  from fr have "''postCode'' \<noteq> ''houseNumber'' \<longrightarrow>
      current (onChange ''houseNumber'' ''1'' (useFormState ?d)) ''postCode''
      = current (useFormState ?d) ''postCode''"
    by (rule conjunct1 [THEN spec])
  from this ne have "current (onChange ''houseNumber'' ''1'' (useFormState ?d)) ''postCode''
      = current (useFormState ?d) ''postCode''"
    by (rule mp)
  with c0 have a: "current (onChange ''houseNumber'' ''1'' (useFormState ?d)) ''postCode''
      = Some ''1000AA''"
    by (simp only:)
  have "''postCode'' \<in> dom ?d" by simp
  moreover from fr have "dom ?d \<subseteq> dom (current (run ?evs (useFormState ?d)))"
    by (rule conjunct2 [THEN conjunct2])
  ultimately have b: "''postCode'' \<in> dom (current (run ?evs (useFormState ?d)))"
    by (rule subsetD [rotated])
  from ne a b show ?thesis by (intro conjI)
qed

section \<open>Properties of the workflow\<close>

subsection \<open>Auxiliary facts\<close>

lemma App_fields_Nil: "App_fields [] = App_initialValues"
  by (simp add: App_fields_def run_def current_def useFormState_def)

lemma App_fields_snoc_Change:
  "App_fields (evs @ [Change name v]) = (App_fields evs)(name \<mapsto> v)"
  by (simp add: App_fields_def run_snoc current_onChange)

lemma App_fields_Change1: "App_fields [Change n v] = App_initialValues(n \<mapsto> v)"
  using App_fields_snoc_Change [of "[]" n v] by (simp add: App_fields_Nil)

lemma App_fields_Change2:
  "App_fields [Change n v, Change n' v'] = App_initialValues(n \<mapsto> v, n' \<mapsto> v')"
  using App_fields_snoc_Change [of "[Change n v]" n' v'] by (simp add: App_fields_Change1)

lemma requests_handleAddressSubmit:
  "requests (handleAddressSubmit t base fetch flds st) =
     (if falsy (flds ''postCode'') \<or> falsy (flds ''houseNumber'') then requests st
      else requests st @
        [request_url base (text_of (flds ''postCode'')) (text_of (flds ''houseNumber''))])"
  by (simp add: handleAddressSubmit_def Let_def split: sum.splits)

lemma handleAddressSubmit_invalid:
  "falsy (flds ''postCode'') \<or> falsy (flds ''houseNumber'') \<Longrightarrow>
   handleAddressSubmit t base fetch flds st =
     st\<lparr>loading := True, error := Some ''Post code and house number are mandatory!'',
        addresses := []\<rparr>"
  by (simp add: handleAddressSubmit_def Let_def)

lemma handleAddressSubmit_valid:
  "\<not> falsy (flds ''postCode'') \<Longrightarrow> \<not> falsy (flds ''houseNumber'') \<Longrightarrow>
   u = request_url base (text_of (flds ''postCode'')) (text_of (flds ''houseNumber'')) \<Longrightarrow>
   handleAddressSubmit t base fetch flds st =
     (case try_block t (fetch u) of
        Inr as \<Rightarrow> st\<lparr>loading := False, error := None, addresses := as,
                    requests := requests st @ [u]\<rparr>
      | Inl e \<Rightarrow> st\<lparr>loading := False,
                   error := Some (case e of ErrorObject message \<Rightarrow> message
                                  | OtherValue \<Rightarrow> ''Failed to fetch addresses''),
                   addresses := [], requests := requests st @ [u]\<rparr>)"
  by (simp add: handleAddressSubmit_def Let_def split: sum.splits)

lemma falsy_simps: "falsy None" "falsy (Some s) \<longleftrightarrow> s = []"
  by (simp_all add: falsy_def)

lemma text_of_Some: "text_of (Some s) = s"
  by (simp add: text_of_def)

lemma array_map_single: "array_map f [x] = [f x 0 [x]]"
  by (simp add: array_map_def)

lemma typed_search_fields:
  "\<not> falsy (App_fields [Change ''postCode'' ''1000AA'', Change ''houseNumber'' ''1''] ''postCode'')"
  "\<not> falsy (App_fields [Change ''postCode'' ''1000AA'', Change ''houseNumber'' ''1''] ''houseNumber'')"
  by (simp_all add: App_fields_Change2 App_initialValues_def falsy_simps)

lemma array_find_Some:
  "array_find p xs = Some x \<Longrightarrow> x \<in> set xs \<and> p x"
  by (auto simp: array_find_def find_Some_iff)

lemma array_find_None: "array_find p xs = None \<longleftrightarrow> (\<forall>x\<in>set xs. \<not> p x)"
  by (auto simp: array_find_def find_None_iff)

lemma App_fields_Change3:
  "App_fields [Change n v, Change n' v', Change n'' v'']
     = App_initialValues(n \<mapsto> v, n' \<mapsto> v', n'' \<mapsto> v'')"
  using App_fields_snoc_Change [of "[Change n v, Change n' v']" n'' v'']
  by (simp add: App_fields_Change2)

subsection \<open>The lookup step\<close>

text \<open>
  Claim C1.  The lookup step calls \<open>data.details.map(transformAddress)\<close>: the transform is
  applied to each raw entry as the callback of \<open>map\<close>, so it receives the entry, its index
  and the array, and nothing else.  For a lookup stubbed to answer with success and the
  single raw entry \<open>e\<close>, the candidate list is the one address \<open>transformAddress e 0 [e]\<close>,
  whether the house number submitted was \<open>1\<close> or \<open>2\<close>: the house number supplied at
  request time is not handed to the transform and cannot be what it stores.
\<close>

theorem house_number_not_passed_to_transform:
  "addresses (handleAddressSubmit t base
      (stubbed (Responded True \<lparr>details = DetailsArray [e], errormessage = None\<rparr>))
      (App_fields [Change ''postCode'' ''1000AA'', Change ''houseNumber'' ''1'']) st)
     = [t e 0 [e]] \<and>
   addresses (handleAddressSubmit t base
      (stubbed (Responded True \<lparr>details = DetailsArray [e], errormessage = None\<rparr>))
      (App_fields [Change ''postCode'' ''1000AA'', Change ''houseNumber'' ''2'']) st)
     = [t e 0 [e]]"
  by (simp add: handleAddressSubmit_def Let_def App_fields_Change2 App_initialValues_def
      falsy_simps stubbed_def try_block_def array_map_single)

text \<open>
  Claim C2.  Submitting the search form with the initial, empty fields fails the
  mandatory-field check; the handler has set \<open>loading\<close> before the check and returns
  without clearing it (the \<open>return\<close> is outside the \<open>try\<close> statement whose \<open>finally\<close>
  clause clears it), so it ends with \<open>loading\<close> true and the error message set, both at
  once.
\<close>

theorem loading_stays_on_after_validation_failure:
  "loading (handleAddressSubmit t base fetch (App_fields []) App_initial_state) \<and>
   error (handleAddressSubmit t base fetch (App_fields []) App_initial_state)
     = Some ''Post code and house number are mandatory!''"
  by (simp add: handleAddressSubmit_def Let_def App_fields_Nil App_initialValues_def falsy_simps)

text \<open>
  Claim C3, as stated, fails for a transport failure: when \<open>fetch\<close> rejects with an
  \<open>Error\<close> (a \<open>TypeError\<close> whose message is \<open>Failed to fetch\<close>, say), the error slot
  receives that message, not the generic text.
\<close>

theorem transport_failure_message_counterexample:
  "error (handleAddressSubmit keep_entry ''http://localhost:3000''
     (stubbed (FetchRejected (ErrorObject ''Failed to fetch'')))
     (App_fields [Change ''postCode'' ''1000AA'', Change ''houseNumber'' ''1''])
     App_initial_state) = Some ''Failed to fetch'' \<and>
   error (handleAddressSubmit keep_entry ''http://localhost:3000''
     (stubbed (FetchRejected (ErrorObject ''Failed to fetch'')))
     (App_fields [Change ''postCode'' ''1000AA'', Change ''houseNumber'' ''1''])
     App_initial_state) \<noteq> Some ''Failed to fetch addresses''"
  by (simp add: handleAddressSubmit_def Let_def App_fields_Change2 App_initialValues_def
      falsy_simps stubbed_def try_block_def)

text \<open>
  Claim C3, amended.  For a search submission with non-empty postcode and house number:
  when the lookup ends in a non-success response that carries an \<open>errormessage\<close> text, the
  error message is that text; when the request, or the reading of the response body,
  fails with an \<open>Error\<close>, the error message is the message of that \<open>Error\<close>; when it fails
  with a value that is not an \<open>Error\<close>, the error message is the generic
  \<open>Failed to fetch addresses\<close>.  In each case the candidate list is empty and \<open>loading\<close>
  is cleared.
\<close>

theorem lookup_failure_sets_error:
  assumes "\<not> falsy (flds ''postCode'')" and "\<not> falsy (flds ''houseNumber'')"
    and "u = request_url base (text_of (flds ''postCode'')) (text_of (flds ''houseNumber''))"
    and "s' = handleAddressSubmit t base fetch flds st"
  shows "(fetch u = Responded False data \<and> errormessage data = Some m \<longrightarrow>
            error s' = Some m \<and> addresses s' = [] \<and> \<not> loading s') \<and>
         (fetch u = FetchRejected (ErrorObject m) \<or> fetch u = JsonRejected ok (ErrorObject m) \<longrightarrow>
            error s' = Some m \<and> addresses s' = [] \<and> \<not> loading s') \<and>
         (fetch u = FetchRejected OtherValue \<or> fetch u = JsonRejected ok OtherValue \<longrightarrow>
            error s' = Some ''Failed to fetch addresses'' \<and> addresses s' = [] \<and> \<not> loading s')"
proof -
  note eq = handleAddressSubmit_valid [OF assms(1) assms(2) assms(3), of t fetch st]
  show ?thesis
    unfolding assms(4) eq
    by (auto simp: try_block_def new_Error_def)
qed

theorem lookup_failure_sets_error_witness:
  "\<not> falsy (App_fields [Change ''postCode'' ''1000AA'', Change ''houseNumber'' ''1''] ''postCode'') \<and>
   \<not> falsy (App_fields [Change ''postCode'' ''1000AA'', Change ''houseNumber'' ''1''] ''houseNumber'') \<and>
   error (handleAddressSubmit keep_entry ''http://localhost:3000''
     (stubbed (Responded False \<lparr>details = DetailsNoMap [], errormessage = Some ''not found''\<rparr>))
     (App_fields [Change ''postCode'' ''1000AA'', Change ''houseNumber'' ''1''])
     App_initial_state) = Some ''not found'' \<and>
   error (handleAddressSubmit keep_entry ''http://localhost:3000''
     (stubbed (FetchRejected (ErrorObject ''Failed to fetch'')))
     (App_fields [Change ''postCode'' ''1000AA'', Change ''houseNumber'' ''1''])
     App_initial_state) = Some ''Failed to fetch'' \<and>
   error (handleAddressSubmit keep_entry ''http://localhost:3000''
     (stubbed (FetchRejected OtherValue))
     (App_fields [Change ''postCode'' ''1000AA'', Change ''houseNumber'' ''1''])
     App_initial_state) = Some ''Failed to fetch addresses''"
proof -
  let ?flds = "App_fields [Change ''postCode'' ''1000AA'', Change ''houseNumber'' ''1'']"
  let ?u = "request_url ''http://localhost:3000'' (text_of (?flds ''postCode''))
      (text_of (?flds ''houseNumber''))"
  let ?body = "\<lparr>details = DetailsNoMap [], errormessage = Some ''not found''\<rparr> :: address body"
  have p: "\<not> falsy (?flds ''postCode'')" and h: "\<not> falsy (?flds ''houseNumber'')"
    by (rule typed_search_fields)+
  have a: "error (handleAddressSubmit keep_entry ''http://localhost:3000''
      (stubbed (Responded False ?body)) ?flds App_initial_state) = Some ''not found''"
    using lookup_failure_sets_error [where t = keep_entry and st = App_initial_state
        and fetch = "stubbed (Responded False ?body)" and data = ?body and m = "''not found''",
        OF p h refl refl]
    by (simp add: stubbed_def)
  have b: "error (handleAddressSubmit keep_entry ''http://localhost:3000''
      (stubbed (FetchRejected (ErrorObject ''Failed to fetch''))) ?flds App_initial_state)
      = Some ''Failed to fetch''"
    using lookup_failure_sets_error [where t = keep_entry and st = App_initial_state
        and fetch = "stubbed (FetchRejected (ErrorObject ''Failed to fetch''))"
        and m = "''Failed to fetch''", OF p h refl refl]
    by (simp add: stubbed_def)
  have c: "error (handleAddressSubmit keep_entry ''http://localhost:3000''
      (stubbed (FetchRejected OtherValue)) ?flds App_initial_state)
      = Some ''Failed to fetch addresses''"
    using lookup_failure_sets_error [where t = keep_entry and st = App_initial_state
        and fetch = "stubbed (FetchRejected OtherValue)", OF p h refl refl]
    by (simp add: stubbed_def)
  from p h a b c show ?thesis by (intro conjI)
qed

text \<open>
  Claim C6.  When the postcode value or the house-number value is falsy (empty or
  absent), the search submission sets the error message
  \<open>Post code and house number are mandatory!\<close> and passes no URL to \<open>fetch\<close>.
\<close>

theorem mandatory_fields_check:
  "falsy (flds ''postCode'') \<or> falsy (flds ''houseNumber'') \<Longrightarrow>
   error (handleAddressSubmit t base fetch flds st)
     = Some ''Post code and house number are mandatory!'' \<and>
   requests (handleAddressSubmit t base fetch flds st) = requests st"
  by (simp add: handleAddressSubmit_invalid)

theorem mandatory_fields_check_witness:
  "falsy (App_fields [Change ''postCode'' ''1000AA''] ''houseNumber'') \<and>
   error (handleAddressSubmit keep_entry ''http://localhost:3000'' (stubbed (Responded True
       \<lparr>details = DetailsArray [], errormessage = None\<rparr>))
       (App_fields [Change ''postCode'' ''1000AA'']) App_initial_state)
     = Some ''Post code and house number are mandatory!'' \<and>
   requests (handleAddressSubmit keep_entry ''http://localhost:3000'' (stubbed (Responded True
       \<lparr>details = DetailsArray [], errormessage = None\<rparr>))
       (App_fields [Change ''postCode'' ''1000AA'']) App_initial_state) = []"
proof -
  have f: "falsy (App_fields [Change ''postCode'' ''1000AA''] ''houseNumber'')"
    by (simp add: App_fields_Change1 App_initialValues_def falsy_simps)
  then have "falsy (App_fields [Change ''postCode'' ''1000AA''] ''postCode'') \<or>
      falsy (App_fields [Change ''postCode'' ''1000AA''] ''houseNumber'')"
    by (rule disjI2)
  then have "error (handleAddressSubmit keep_entry ''http://localhost:3000'' (stubbed (Responded True
       \<lparr>details = DetailsArray [], errormessage = None\<rparr>))
       (App_fields [Change ''postCode'' ''1000AA'']) App_initial_state)
     = Some ''Post code and house number are mandatory!'' \<and>
   requests (handleAddressSubmit keep_entry ''http://localhost:3000'' (stubbed (Responded True
       \<lparr>details = DetailsArray [], errormessage = None\<rparr>))
       (App_fields [Change ''postCode'' ''1000AA'']) App_initial_state) = requests App_initial_state"
    by (rule mandatory_fields_check)
  moreover have "requests App_initial_state = []"
    by (simp add: App_initial_state_def)
  ultimately show ?thesis using f by simp
qed

text \<open>
  Claim C9.  For the postcode \<open>1000 AA\<close> and the house number \<open>1\<close> the lookup step passes
  exactly one URL to \<open>fetch\<close>, to \<open>/api/getAddresses\<close> under the base URL with the query
  parameters \<open>postcode\<close> and \<open>streetnumber\<close>.  The postcode appears in it as
  \<open>1000%2520AA\<close>: the value is first escaped by \<open>encodeURIComponent\<close>, to \<open>1000%20AA\<close>,
  and the percent sign of that result is escaped again when \<open>URLSearchParams\<close> is
  serialized.  The value is percent-encoded twice, not once.
\<close>

theorem query_values_encoded_twice:
  "requests (handleAddressSubmit t ''http://localhost:3000'' fetch
      (App_fields [Change ''postCode'' ''1000 AA'', Change ''houseNumber'' ''1''])
      App_initial_state)
     = [''http://localhost:3000/api/getAddresses?postcode=1000%2520AA&streetnumber=1''] \<and>
   encodeURIComponent ''1000 AA'' = ''1000%20AA''"
proof -
  have u: "request_url ''http://localhost:3000'' ''1000 AA'' ''1''
      = ''http://localhost:3000/api/getAddresses?postcode=1000%2520AA&streetnumber=1''"
    by code_simp
  have e: "encodeURIComponent ''1000 AA'' = ''1000%20AA''"
    by code_simp
  show ?thesis
    by (simp add: requests_handleAddressSubmit App_fields_Change2 App_initialValues_def
        falsy_simps text_of_Some u e App_initial_state_def)
qed

text \<open>
  Claim C10.  The search submission clears the error slot and the candidate list before
  the mandatory-field check: its outcome is the same as if it had been started with an
  empty error slot and an empty candidate list, and when the check fails the candidate
  list is empty afterwards, whatever an earlier lookup had put there.
\<close>

theorem search_clears_previous_results:
  "handleAddressSubmit t base fetch flds st
     = handleAddressSubmit t base fetch flds (st\<lparr>error := None, addresses := []\<rparr>) \<and>
   (falsy (flds ''postCode'') \<or> falsy (flds ''houseNumber'') \<longrightarrow>
      addresses (handleAddressSubmit t base fetch flds st) = [])"
  by (simp add: handleAddressSubmit_def Let_def)

theorem search_clears_previous_results_witness:
  "falsy (App_fields [] ''postCode'') \<and>
   addresses (handleAddressSubmit keep_entry ''http://localhost:3000''
     (stubbed (FetchRejected OtherValue)) (App_fields [])
     (App_initial_state\<lparr>addresses := [address_a1]\<rparr>)) = []"
proof -
  have f: "falsy (App_fields [] ''postCode'')"
    by (simp add: App_fields_Nil App_initialValues_def falsy_simps)
  then have "falsy (App_fields [] ''postCode'') \<or> falsy (App_fields [] ''houseNumber'')"
    by (rule disjI1)
  moreover note search_clears_previous_results [of keep_entry "''http://localhost:3000''"
      "stubbed (FetchRejected OtherValue)" "App_fields []"
      "App_initial_state\<lparr>addresses := [address_a1]\<rparr>"]
  ultimately have "addresses (handleAddressSubmit keep_entry ''http://localhost:3000''
     (stubbed (FetchRejected OtherValue)) (App_fields [])
     (App_initial_state\<lparr>addresses := [address_a1]\<rparr>)) = []"
    by blast
  with f show ?thesis by (rule conjI)
qed

subsection \<open>The submission step\<close>

text \<open>
  Claim C4.  When first name and last name are non-empty, the selection is non-empty and
  equals the identifier of a candidate in the (hence non-empty) candidate list, the
  personal-info submission passes exactly one record to \<open>addAddress\<close>: the fields of a
  candidate whose identifier is the selection (the first such candidate; the selected
  one when identifiers are distinct) together with the first and the last name.  The
  error slot holds the empty text afterwards and nothing else in the state changes.
\<close>

theorem person_submit_adds_record:
  assumes "flds ''firstName'' = Some fn" and "fn \<noteq> []"
    and "flds ''lastName'' = Some ln" and "ln \<noteq> []"
    and "flds ''selectedAddress'' = Some sel" and "sel \<noteq> []"
    and "a \<in> set (addresses st)" and "id_addr a = sel"
  shows "\<exists>found. found \<in> set (addresses st) \<and> id_addr found = sel \<and>
           (distinct (map id_addr (addresses st)) \<longrightarrow> found = a) \<and>
           handlePersonSubmit flds st =
             st\<lparr>error := Some [],
                added := added st @
                  [\<lparr>id_addr = id_addr found, postcode = postcode found, street = street found,
                    city = city found, houseNumber = houseNumber found,
                    firstName = fn, lastName = ln\<rparr>]\<rparr>"
proof -
  let ?p = "\<lambda>b. Some (id_addr b) = flds ''selectedAddress''"
  have "\<not> (\<forall>x\<in>set (addresses st). \<not> ?p x)"
    using assms(5,7,8) by auto
  then have "array_find ?p (addresses st) \<noteq> None"
    by (simp only: array_find_None not_False_eq_True)
  then obtain found where f: "array_find ?p (addresses st) = Some found"
    by auto
  from array_find_Some [OF f] have m: "found \<in> set (addresses st)" and i: "id_addr found = sel"
    using assms(5) by auto
  have d: "distinct (map id_addr (addresses st)) \<longrightarrow> found = a"
    using m i assms(7,8) by (auto simp: distinct_map inj_on_def)
  have ne: "addresses st \<noteq> []"
    using assms(7) by auto
  have "handlePersonSubmit flds st =
      st\<lparr>error := Some [],
         added := added st @
           [\<lparr>id_addr = id_addr found, postcode = postcode found, street = street found,
             city = city found, houseNumber = houseNumber found,
             firstName = fn, lastName = ln\<rparr>]\<rparr>"
    using assms(1-6) ne f
    by (simp add: handlePersonSubmit_def falsy_simps text_of_Some address.extend_def
        finished.fields_def)
  with m i d show ?thesis by blast
qed

theorem person_submit_adds_record_witness:
  "handlePersonSubmit
     (App_fields [Change ''selectedAddress'' ''a1'', Change ''firstName'' ''Ada'',
        Change ''lastName'' ''Lovelace''])
     (App_initial_state\<lparr>addresses := [address_a1]\<rparr>)
   = App_initial_state\<lparr>addresses := [address_a1], error := Some [],
       added := [\<lparr>id_addr = ''a1'', postcode = ''1000AA'', street = ''Main'',
                  city = ''Amsterdam'', houseNumber = ''1'',
                  firstName = ''Ada'', lastName = ''Lovelace''\<rparr>]\<rparr>"
proof -
  let ?flds = "App_fields [Change ''selectedAddress'' ''a1'', Change ''firstName'' ''Ada'',
      Change ''lastName'' ''Lovelace'']"
  let ?st = "App_initial_state\<lparr>addresses := [address_a1]\<rparr>"
  have f: "?flds ''firstName'' = Some ''Ada''" "?flds ''lastName'' = Some ''Lovelace''"
      "?flds ''selectedAddress'' = Some ''a1''"
    by (simp_all add: App_fields_Change3 App_initialValues_def)
  have n: "''Ada'' \<noteq> []" "''Lovelace'' \<noteq> []" "''a1'' \<noteq> []"
    by simp_all
  have a: "address_a1 \<in> set (addresses ?st)" "id_addr address_a1 = ''a1''"
    by (simp_all add: address_a1_def)
  have d: "distinct (map id_addr (addresses ?st))"
    by simp
  from person_submit_adds_record [OF f(1) n(1) f(2) n(2) f(3) n(3) a]
  obtain found where "distinct (map id_addr (addresses ?st)) \<longrightarrow> found = address_a1"
    and r: "handlePersonSubmit ?flds ?st =
       ?st\<lparr>error := Some [],
          added := added ?st @
            [\<lparr>id_addr = id_addr found, postcode = postcode found, street = street found,
              city = city found, houseNumber = houseNumber found,
              firstName = ''Ada'', lastName = ''Lovelace''\<rparr>]\<rparr>"
    by blast
  with d have "found = address_a1" by blast
  with r show ?thesis
    by (simp add: address_a1_def App_initial_state_def)
qed

text \<open>
  Claim C5.  The personal-info submission checks its preconditions in order and stops at
  the first that fails, changing nothing but the error slot (so \<open>addAddress\<close> is not
  called): an empty first or last name gives \<open>First name and last name fields mandatory!\<close>
  whatever the selection; otherwise an empty selection or an empty candidate list gives
  \<open>No address selected, try to select an address or find one if you haven't\<close>; otherwise
  a selection that is the identifier of no candidate gives \<open>Selected address not found\<close>.
\<close>

theorem person_submit_preconditions:
  "(falsy (flds ''firstName'') \<or> falsy (flds ''lastName'') \<longrightarrow>
      handlePersonSubmit flds st =
        st\<lparr>error := Some ''First name and last name fields mandatory!''\<rparr>) \<and>
   (\<not> falsy (flds ''firstName'') \<and> \<not> falsy (flds ''lastName'') \<and>
    (falsy (flds ''selectedAddress'') \<or> addresses st = []) \<longrightarrow>
      handlePersonSubmit flds st =
        st\<lparr>error := Some
          ''No address selected, try to select an address or find one if you haven't''\<rparr>) \<and>
   (\<not> falsy (flds ''firstName'') \<and> \<not> falsy (flds ''lastName'') \<and>
    \<not> falsy (flds ''selectedAddress'') \<and> addresses st \<noteq> [] \<and>
    (\<forall>a\<in>set (addresses st). Some (id_addr a) \<noteq> flds ''selectedAddress'') \<longrightarrow>
      handlePersonSubmit flds st = st\<lparr>error := Some ''Selected address not found''\<rparr>)"
proof (intro conjI impI)
  assume "falsy (flds ''firstName'') \<or> falsy (flds ''lastName'')"
  then show "handlePersonSubmit flds st =
      st\<lparr>error := Some ''First name and last name fields mandatory!''\<rparr>"
    by (simp add: handlePersonSubmit_def)
next
  assume "\<not> falsy (flds ''firstName'') \<and> \<not> falsy (flds ''lastName'') \<and>
    (falsy (flds ''selectedAddress'') \<or> addresses st = [])"
  then show "handlePersonSubmit flds st =
      st\<lparr>error := Some
        ''No address selected, try to select an address or find one if you haven't''\<rparr>"
    by (auto simp: handlePersonSubmit_def)
next
  assume h: "\<not> falsy (flds ''firstName'') \<and> \<not> falsy (flds ''lastName'') \<and>
    \<not> falsy (flds ''selectedAddress'') \<and> addresses st \<noteq> [] \<and>
    (\<forall>a\<in>set (addresses st). Some (id_addr a) \<noteq> flds ''selectedAddress'')"
  then have "array_find (\<lambda>a. Some (id_addr a) = flds ''selectedAddress'') (addresses st) = None"
    by (simp add: array_find_None)
  with h show "handlePersonSubmit flds st = st\<lparr>error := Some ''Selected address not found''\<rparr>"
    by (simp add: handlePersonSubmit_def)
qed

theorem person_submit_preconditions_witness:
  "handlePersonSubmit (App_fields [Change ''selectedAddress'' ''a1''])
     (App_initial_state\<lparr>addresses := [address_a1]\<rparr>)
   = App_initial_state\<lparr>addresses := [address_a1],
       error := Some ''First name and last name fields mandatory!''\<rparr> \<and>
   handlePersonSubmit (App_fields [Change ''firstName'' ''Ada'', Change ''lastName'' ''Lovelace''])
     (App_initial_state\<lparr>addresses := [address_a1]\<rparr>)
   = App_initial_state\<lparr>addresses := [address_a1], error := Some
       ''No address selected, try to select an address or find one if you haven't''\<rparr> \<and>
   handlePersonSubmit
     (App_fields [Change ''firstName'' ''Ada'', Change ''lastName'' ''Lovelace'',
        Change ''selectedAddress'' ''b2''])
     (App_initial_state\<lparr>addresses := [address_a1]\<rparr>)
   = App_initial_state\<lparr>addresses := [address_a1], error := Some ''Selected address not found''\<rparr>"
proof -
  let ?st = "App_initial_state\<lparr>addresses := [address_a1]\<rparr>"
  let ?f1 = "App_fields [Change ''selectedAddress'' ''a1'']"
  let ?f2 = "App_fields [Change ''firstName'' ''Ada'', Change ''lastName'' ''Lovelace'']"
  let ?f3 = "App_fields [Change ''firstName'' ''Ada'', Change ''lastName'' ''Lovelace'',
      Change ''selectedAddress'' ''b2'']"
  have h1: "falsy (?f1 ''firstName'') \<or> falsy (?f1 ''lastName'')"
    by (simp add: App_fields_Change1 App_initialValues_def falsy_simps)
  have h2: "\<not> falsy (?f2 ''firstName'') \<and> \<not> falsy (?f2 ''lastName'') \<and>
      (falsy (?f2 ''selectedAddress'') \<or> addresses ?st = [])"
    by (simp add: App_fields_Change2 App_initialValues_def falsy_simps)
  have h3: "\<not> falsy (?f3 ''firstName'') \<and> \<not> falsy (?f3 ''lastName'') \<and>
      \<not> falsy (?f3 ''selectedAddress'') \<and> addresses ?st \<noteq> [] \<and>
      (\<forall>a\<in>set (addresses ?st). Some (id_addr a) \<noteq> ?f3 ''selectedAddress'')"
    by (simp add: App_fields_Change3 App_initialValues_def falsy_simps address_a1_def)
  have r1: "handlePersonSubmit ?f1 ?st =
      ?st\<lparr>error := Some ''First name and last name fields mandatory!''\<rparr>"
    using person_submit_preconditions [of ?f1 ?st] h1 by blast
  have r2: "handlePersonSubmit ?f2 ?st = ?st\<lparr>error := Some
      ''No address selected, try to select an address or find one if you haven't''\<rparr>"
    using person_submit_preconditions [of ?f2 ?st] h2 by blast
  have r3: "handlePersonSubmit ?f3 ?st = ?st\<lparr>error := Some ''Selected address not found''\<rparr>"
    using person_submit_preconditions [of ?f3 ?st] h3 by blast
  from r1 r2 r3 show ?thesis by simp
qed

end
